theory Spec2Isabelle
  imports Complex_Main "HOL-Library.Product_Lexorder" "HOL-Library.List_Lexorder"
    "HOL-Library.Char_ord" "HOL-Library.Multiset"
begin

section \<open>The sales dashboard pipeline of \<open>dashboard.py\<close>\<close>

text \<open>
  The theory embeds the metric and aggregation pipeline of \<open>dashboard.py\<close>: the
  preprocessing of the raw rows, the filter of the dashboard callback, the KPI
  calculation, the product-share and profit-margin aggregations and the insight
  generator. A data frame is the list of its rows, in row order.
\<close>

subsection \<open>Numbers\<close>

text \<open>
  pandas and numpy compute on IEEE 754 doubles, where a division by zero does not raise:
  it yields an infinity or NaN. \<open>float64\<close> keeps exactly that part of the arithmetic:
  a value is a finite number, one of the two infinities, or NaN. Rounding, overflow and
  the sign of zero are left out (a finite result is the exact real, and a zero divisor
  counts as \<open>+0.0\<close>, which is what an integer zero converts to).
\<close>

datatype float64 = Fin real | PInf | NInf | NaN

fun fadd :: "float64 \<Rightarrow> float64 \<Rightarrow> float64" where
  "fadd (Fin x) (Fin y) = Fin (x + y)"
| "fadd (Fin x) PInf = PInf"
| "fadd (Fin x) NInf = NInf"
| "fadd PInf (Fin y) = PInf"
| "fadd NInf (Fin y) = NInf"
| "fadd PInf PInf = PInf"
| "fadd NInf NInf = NInf"
| "fadd _ _ = NaN"

fun fmul :: "float64 \<Rightarrow> float64 \<Rightarrow> float64" where
  "fmul (Fin x) (Fin y) = Fin (x * y)"
| "fmul (Fin x) PInf = (if x = 0 then NaN else if 0 < x then PInf else NInf)"
| "fmul (Fin x) NInf = (if x = 0 then NaN else if 0 < x then NInf else PInf)"
| "fmul PInf (Fin y) = (if y = 0 then NaN else if 0 < y then PInf else NInf)"
| "fmul NInf (Fin y) = (if y = 0 then NaN else if 0 < y then NInf else PInf)"
| "fmul PInf PInf = PInf"
| "fmul PInf NInf = NInf"
| "fmul NInf PInf = NInf"
| "fmul NInf NInf = PInf"
| "fmul _ _ = NaN"

fun fdiv :: "float64 \<Rightarrow> float64 \<Rightarrow> float64" where
  "fdiv (Fin x) (Fin y) =
     (if y = 0 then (if x = 0 then NaN else if 0 < x then PInf else NInf)
      else Fin (x / y))"
| "fdiv (Fin x) PInf = Fin 0"
| "fdiv (Fin x) NInf = Fin 0"
| "fdiv PInf (Fin y) = (if 0 \<le> y then PInf else NInf)"
| "fdiv NInf (Fin y) = (if 0 \<le> y then NInf else PInf)"
| "fdiv _ _ = NaN"

fun is_finite :: "float64 \<Rightarrow> bool" where
  "is_finite (Fin x) = True"
| "is_finite _ = False"

subsection \<open>Time-of-day categories\<close>

text \<open>
  The dictionary \<open>time_of_day\<close> of \<open>load_and_preprocess_data\<close>, in the order it is
  written. The entry of \<open>Night\<close> is never read: Night is the \<open>else\<close> branch.
\<close>

definition time_of_day :: "(string \<times> (int \<times> int)) list" where
  "time_of_day =
     [(''Morning'', (5, 11)), (''Afternoon'', (12, 16)),
      (''Evening'', (17, 20)), (''Night'', (21, 4))]"

definition tod_range :: "string \<Rightarrow> int \<times> int" where
  "tod_range name = the (map_of time_of_day name)"

definition categorize_time_of_day :: "int \<Rightarrow> string" where
  "categorize_time_of_day hour =
     (if fst (tod_range ''Morning'') \<le> hour \<and> hour \<le> snd (tod_range ''Morning'')
        then ''Morning''
      else if fst (tod_range ''Afternoon'') \<le> hour \<and> hour \<le> snd (tod_range ''Afternoon'')
        then ''Afternoon''
      else if fst (tod_range ''Evening'') \<le> hour \<and> hour \<le> snd (tod_range ''Evening'')
        then ''Evening''
      else ''Night'')"

subsection \<open>Rows\<close>

text \<open>
  \<open>Order_Date\<close> after \<open>pd.to_datetime\<close>: a calendar date. The columns \<open>Year\<close> and
  \<open>Month\<close> are columns of the CSV file of their own; the code never derives them from
  \<open>Order_Date\<close>.
\<close>

record date =
  year :: nat
  month :: nat
  day :: nat

text \<open>
  A row of the CSV file. The sales and profit columns hold finite numbers (of either
  sign), the quantity column integers.
\<close>

record row =
  Order_Date :: date
  Hour :: int
  Day_of_Week :: string
  Product_ID :: int
  Region_ID :: int
  Sales_Rep_ID :: int
  Quantity_Sold :: int
  Total_Sales :: real
  Profit :: real
  Return_Flag :: bool
  Year :: int
  Month :: int

text \<open>
  The row with the columns \<open>load_and_preprocess_data\<close> adds. \<open>Year_Month\<close> is the
  string \<open>strftime('%Y-%m')\<close> and \<open>Month_Year\<close> the monthly period of the order date;
  both are kept as the pair (year, month), whose lexicographic order is the order of the
  strings (four digits, a dash, two digits) and of the periods.
\<close>

record erow = row +
  Time_of_Day :: string
  Month_Year :: "nat \<times> nat"
  Month_Name :: string
  Quarter :: nat
  Year_Month :: "nat \<times> nat"
  Profit_Margin :: float64
  Order_Size :: float64

definition month_names :: "string list" where
  "month_names =
     [''January'', ''February'', ''March'', ''April'', ''May'', ''June'', ''July'',
      ''August'', ''September'', ''October'', ''November'', ''December'']"

definition preprocess_row :: "row \<Rightarrow> erow" where
  "preprocess_row r =
     row.extend r
       (erow.fields
          (categorize_time_of_day (Hour r))
          (year (Order_Date r), month (Order_Date r))
          (month_names ! (month (Order_Date r) - 1))
          ((month (Order_Date r) - 1) div 3 + 1)
          (year (Order_Date r), month (Order_Date r))
          (fmul (fdiv (Fin (Profit r)) (Fin (Total_Sales r))) (Fin 100))
          (fdiv (Fin (Total_Sales r)) (Fin (real_of_int (Quantity_Sold r)))))"

text \<open>\<open>load_and_preprocess_data\<close>, from the rows \<open>pd.read_csv\<close> has read.\<close>

definition load_and_preprocess_data :: "row list \<Rightarrow> erow list" where
  "load_and_preprocess_data raw = map preprocess_row raw"

subsection \<open>pandas operations\<close>

datatype py_error = IndexError | ValueError

text \<open>
  \<open>df.groupby(key)[col].sum().reset_index()\<close>: one entry per distinct key, in ascending
  key order, with the sum of the column over the rows of that key.
\<close>

definition groupby_sum ::
  "('r \<Rightarrow> 'k::linorder) \<Rightarrow> ('r \<Rightarrow> 'v::comm_monoid_add) \<Rightarrow> 'r list \<Rightarrow> ('k \<times> 'v) list" where
  "groupby_sum key col df =
     map (\<lambda>k. (k, sum_list (map col (filter (\<lambda>r. key r = k) df))))
       (sort (remdups (map key df)))"

text \<open>The mean of a float column skips NaN; with nothing left it is NaN.\<close>

definition nanmean :: "float64 list \<Rightarrow> float64" where
  "nanmean xs =
     (let ys = filter (\<lambda>x. x \<noteq> NaN) xs
      in if ys = [] then NaN else fdiv (foldl fadd (Fin 0) ys) (Fin (real (length ys))))"

definition groupby_mean ::
  "('r \<Rightarrow> 'k::linorder) \<Rightarrow> ('r \<Rightarrow> float64) \<Rightarrow> 'r list \<Rightarrow> ('k \<times> float64) list" where
  "groupby_mean key col df =
     map (\<lambda>k. (k, nanmean (map col (filter (\<lambda>r. key r = k) df))))
       (sort (remdups (map key df)))"

text \<open>The mean of a boolean column: the share of True; NaN for no rows.\<close>

definition mean_bool :: "bool list \<Rightarrow> float64" where
  "mean_bool bs =
     (if bs = [] then NaN
      else Fin (real (length (filter (\<lambda>b. b) bs)) / real (length bs)))"

text \<open>\<open>frame.iloc[i]\<close>: a negative position counts from the end; out of range raises.\<close>

definition iloc :: "'a list \<Rightarrow> int \<Rightarrow> py_error + 'a" where
  "iloc frame i =
     (let pos = (if i < 0 then int (length frame) + i else i)
      in if pos < 0 \<or> int (length frame) \<le> pos then Inl IndexError
         else Inr (frame ! nat pos))"

text \<open>
  \<open>sort_values(col, ascending=False)\<close> on the value column. pandas does not fix the
  order of rows with equal values; the model keeps them in their earlier order.
\<close>

definition sort_values_desc :: "('k \<times> real) list \<Rightarrow> ('k \<times> real) list" where
  "sort_values_desc frame = sort_key (\<lambda>kv. - snd kv) frame"

text \<open>
  \<open>series.idxmax()\<close> after \<open>reset_index\<close>: the position of the first largest value;
  ValueError on an empty series.
\<close>

fun argmax :: "real list \<Rightarrow> nat" where
  "argmax [] = 0"
| "argmax [x] = 0"
| "argmax (x # y # ys) =
     (let j = argmax (y # ys) in if x < (y # ys) ! j then Suc j else 0)"

definition idxmax :: "real list \<Rightarrow> py_error + nat" where
  "idxmax vs = (if vs = [] then Inl ValueError else Inr (argmax vs))"

subsection \<open>The KPI calculation\<close>

record metrics =
  metrics_Total_Sales :: real
  metrics_Total_Quantity :: int
  metrics_Total_Profit :: real
  metrics_Avg_Order_Size :: float64
  metrics_Return_Rate :: float64
  metrics_MoM_Growth :: float64
  metrics_YoY_Growth :: float64

text \<open>Lines 80 to 86: the month-over-month growth from the monthly sales frame.\<close>

definition mom_growth :: "('k \<times> real) list \<Rightarrow> py_error + float64" where
  "mom_growth monthly_sales =
     (if 2 \<le> length monthly_sales then
        (case iloc monthly_sales (- 1) of
           Inl e \<Rightarrow> Inl e
         | Inr current_month \<Rightarrow>
             (case iloc monthly_sales (- 2) of
                Inl e \<Rightarrow> Inl e
              | Inr previous_month \<Rightarrow>
                  Inr (fmul
                         (fdiv (Fin (snd current_month - snd previous_month))
                            (Fin (snd previous_month)))
                         (Fin 100))))
      else Inr (Fin 0))"

text \<open>Lines 88 to 94: the year-over-year growth, thirteen positions back.\<close>

definition yoy_growth :: "('k \<times> real) list \<Rightarrow> py_error + float64" where
  "yoy_growth monthly_sales =
     (if 13 \<le> length monthly_sales then
        (case iloc monthly_sales (- 1) of
           Inl e \<Rightarrow> Inl e
         | Inr current_month \<Rightarrow>
             (case iloc monthly_sales (- 13) of
                Inl e \<Rightarrow> Inl e
              | Inr year_ago_month \<Rightarrow>
                  Inr (fmul
                         (fdiv (Fin (snd current_month - snd year_ago_month))
                            (Fin (snd year_ago_month)))
                         (Fin 100))))
      else Inr (Fin 0))"

definition calculate_advanced_metrics :: "erow list \<Rightarrow> py_error + metrics" where
  "calculate_advanced_metrics df =
     (let monthly_sales = groupby_sum Year_Month Total_Sales df in
      case mom_growth monthly_sales of
        Inl e \<Rightarrow> Inl e
      | Inr mom \<Rightarrow>
          (case yoy_growth monthly_sales of
             Inl e \<Rightarrow> Inl e
           | Inr yoy \<Rightarrow>
               Inr \<lparr> metrics_Total_Sales = sum_list (map Total_Sales df),
                     metrics_Total_Quantity = sum_list (map Quantity_Sold df),
                     metrics_Total_Profit = sum_list (map Profit df),
                     metrics_Avg_Order_Size =
                       fdiv (Fin (sum_list (map Total_Sales df)))
                         (Fin (real_of_int (sum_list (map Quantity_Sold df)))),
                     metrics_Return_Rate = fmul (mean_bool (map Return_Flag df)) (Fin 100),
                     metrics_MoM_Growth = mom,
                     metrics_YoY_Growth = yoy \<rparr>))"

subsection \<open>The filter of the dashboard callback\<close>

text \<open>
  \<open>update_dashboard\<close>, lines 490 to 500. A dropdown with nothing selected passes None
  (or the empty list, for a multiple choice); \<open>if selected:\<close> is Python's truth test,
  false for None, for the empty list and for the number 0.
\<close>

definition truthy_list :: "'a list option \<Rightarrow> bool" where
  "truthy_list sel = (case sel of None \<Rightarrow> False | Some xs \<Rightarrow> xs \<noteq> [])"

definition truthy_int :: "int option \<Rightarrow> bool" where
  "truthy_int sel = (case sel of None \<Rightarrow> False | Some n \<Rightarrow> n \<noteq> 0)"

definition filter_view ::
  "int list option \<Rightarrow> string list option \<Rightarrow> int option \<Rightarrow> erow list \<Rightarrow> erow list" where
  "filter_view selected_regions selected_times selected_year df =
     (let f1 = (if truthy_list selected_regions
                then filter (\<lambda>r. Region_ID r \<in> set (the selected_regions)) df else df);
          f2 = (if truthy_list selected_times
                then filter (\<lambda>r. Time_of_Day r \<in> set (the selected_times)) f1 else f1)
      in if truthy_int selected_year
         then filter (\<lambda>r. Year r = the selected_year) f2 else f2)"

subsection \<open>Aggregations\<close>

text \<open>
  \<open>plot_product_sales_share\<close>, line 171, subtracts two float sums of the same
  per-product totals, one added in the order of the product ids and one in the order of
  descending sales. Float addition rounds, so the two orders need not give the same sum.
  The float sum of a column and the float difference are therefore parameters of the
  aggregation; \<open>exact_arith\<close> is the arithmetic with no rounding.
\<close>

record float_arith =
  fl_sum :: "real list \<Rightarrow> real"
  fl_sub :: "real \<Rightarrow> real \<Rightarrow> real"

definition exact_arith :: float_arith where
  "exact_arith = \<lparr> fl_sum = sum_list, fl_sub = (\<lambda>a b. a - b) \<rparr>"

text \<open>
  The data of the pie chart: the five products with the largest sales and the row
  \<open>Others\<close>.
\<close>

datatype label = Product int | Others

definition plot_product_sales_share :: "float_arith \<Rightarrow> erow list \<Rightarrow> (label \<times> real) list" where
  "plot_product_sales_share fa df =
     (let product_sales = groupby_sum Product_ID Total_Sales df;
          top_products = take 5 (sort_values_desc product_sales);
          other_products =
            [(Others,
              fl_sub fa (fl_sum fa (map snd product_sales))
                (fl_sum fa (map snd top_products)))]
      in map (\<lambda>kv. (Product (fst kv), snd kv)) top_products @ other_products)"

text \<open>
  \<open>plot_profit_margin_trend\<close>: the mean of the rows' profit margins per month, sorted
  by month.
\<close>

definition plot_profit_margin_trend :: "erow list \<Rightarrow> ((nat \<times> nat) \<times> float64) list" where
  "plot_profit_margin_trend df = sort_key fst (groupby_mean Month_Year Profit_Margin df)"

subsection \<open>The insight generator\<close>

text \<open>
  \<open>generate_insights_and_recommendations\<close> formats five sentences from the figures
  below; the model returns the figures. The grouped frames are pure and are bound first;
  the steps that can raise keep the order of the source. Every \<open>idxmax\<close> raises on an
  empty frame, and nothing in the function catches it.
\<close>

record insights =
  peak_time :: string
  peak_sales_percentage :: float64
  top_product :: "int \<times> real"
  product_contribution :: float64
  top_region :: "int \<times> real"
  region_contribution :: float64
  high_margin_product :: "int \<times> real"

definition values0 :: "'a list \<Rightarrow> py_error + 'a" where
  "values0 xs = (case xs of [] \<Rightarrow> Inl IndexError | x # _ \<Rightarrow> Inr x)"

definition generate_insights_and_recommendations :: "erow list \<Rightarrow> py_error + insights" where
  "generate_insights_and_recommendations df =
     (let tod_sales = groupby_sum Time_of_Day Total_Sales df;
          total = sum_list (map Total_Sales df);
          product_sales = groupby_sum Product_ID Total_Sales df;
          region_sales = groupby_sum Region_ID Total_Sales df;
          product_profit = groupby_sum Product_ID Profit df
      in (case idxmax (map snd tod_sales) of
            Inl e \<Rightarrow> Inl e
          | Inr i \<Rightarrow>
         (case values0 (map snd (filter (\<lambda>kv. fst kv = fst (tod_sales ! i)) tod_sales)) of
            Inl e \<Rightarrow> Inl e
          | Inr peak_sales \<Rightarrow>
         (case idxmax (map snd product_sales) of
            Inl e \<Rightarrow> Inl e
          | Inr j \<Rightarrow>
         (case idxmax (map snd region_sales) of
            Inl e \<Rightarrow> Inl e
          | Inr k \<Rightarrow>
         (case idxmax (map snd product_profit) of
            Inl e \<Rightarrow> Inl e
          | Inr l \<Rightarrow>
              Inr \<lparr> peak_time = fst (tod_sales ! i),
                    peak_sales_percentage =
                      fmul (fdiv (Fin peak_sales) (Fin total)) (Fin 100),
                    top_product = product_sales ! j,
                    product_contribution =
                      fmul (fdiv (Fin (snd (product_sales ! j))) (Fin total)) (Fin 100),
                    top_region = region_sales ! k,
                    region_contribution =
                      fmul (fdiv (Fin (snd (region_sales ! k))) (Fin total)) (Fin 100),
                    high_margin_product = product_profit ! l \<rparr>))))))"

subsection \<open>Monthly totals, in the words of the specification\<close>

text \<open>
  The total sales of the view per year-month key, for the distinct keys of the view in
  ascending order. The growth figures of the specification are stated over this list
  and compared below with what \<open>calculate_advanced_metrics\<close> computes.
\<close>

definition monthly_totals :: "erow list \<Rightarrow> real list" where
  "monthly_totals df =
     map (\<lambda>k. sum_list (map Total_Sales (filter (\<lambda>r. Year_Month r = k) df)))
       (sorted_list_of_set (Year_Month ` set df))"

subsection \<open>Sample data\<close>

text \<open>
  A raw row with the columns the examples vary: the month of the order, the hour, the
  product, the region, the quantity, the sales, the profit and the return flag.
\<close>

definition sample_row ::
  "nat \<times> nat \<Rightarrow> int \<Rightarrow> int \<Rightarrow> int \<Rightarrow> int \<Rightarrow> real \<Rightarrow> real \<Rightarrow> bool \<Rightarrow> row" where
  "sample_row ym h product region qty sales profit ret =
     \<lparr> Order_Date = \<lparr> year = fst ym, month = snd ym, day = 1 \<rparr>,
       Hour = h, Day_of_Week = ''Monday'', Product_ID = product, Region_ID = region,
       Sales_Rep_ID = 1, Quantity_Sold = qty, Total_Sales = sales, Profit = profit,
       Return_Flag = ret, Year = int (fst ym), Month = int (snd ym) \<rparr>"

section \<open>Properties\<close>

subsection \<open>Facts about the pandas operations\<close>

lemma iloc_neg:
  "0 < k \<Longrightarrow> k \<le> length xs \<Longrightarrow> iloc xs (- int k) = Inr (xs ! (length xs - k))"
  by (auto simp add: iloc_def Let_def nat_diff_distrib' of_nat_diff)

lemma groupby_sum_Nil: "groupby_sum key col [] = []"
  by (simp add: groupby_sum_def)

lemma groupby_sum_keys:
  "map fst (groupby_sum key col df) = sorted_list_of_set (key ` set df)"
  by (simp add: groupby_sum_def comp_def sorted_list_of_set_sort_remdups [symmetric])

lemma groupby_sum_length:
  "length (groupby_sum key col df) = card (key ` set df)"
proof -
  have "length (groupby_sum key col df) = length (map fst (groupby_sum key col df))"
    by simp
  also have "\<dots> = card (key ` set df)"
    unfolding groupby_sum_keys by simp
  finally show ?thesis .
qed

lemma groupby_sum_nth:
  assumes "i < card (key ` set df)"
  shows "groupby_sum key col df ! i =
    (sorted_list_of_set (key ` set df) ! i,
     sum_list (map col (filter (\<lambda>r. key r = sorted_list_of_set (key ` set df) ! i) df)))"
proof -
  have ks: "sort (remdups (map key df)) = sorted_list_of_set (key ` set df)"
    by (simp add: sorted_list_of_set_sort_remdups [symmetric])
  have "i < length (sorted_list_of_set (key ` set df))"
    using assms by simp
  then show ?thesis
    by (simp add: groupby_sum_def ks)
qed

lemma sum_list_indicator:
  fixes c :: "'v::comm_monoid_add"
  assumes "distinct ks"
  shows "sum_list (map (\<lambda>k. if a = k then c else 0) ks) = (if a \<in> set ks then c else 0)"
  using assms by (induction ks) auto

lemma sum_list_groups:
  fixes col :: "'r \<Rightarrow> 'v::comm_monoid_add"
  assumes "distinct ks"
  shows "sum_list (map (\<lambda>k. sum_list (map col (filter (\<lambda>r. key r = k) df))) ks) =
    sum_list (map col (filter (\<lambda>r. key r \<in> set ks) df))"
proof (induction df)
  case Nil
  then show ?case by simp
next
  case (Cons r df)
  have "sum_list (map (\<lambda>k. sum_list (map col (filter (\<lambda>r. key r = k) (r # df)))) ks) =
    sum_list (map (\<lambda>k. (if key r = k then col r else 0) +
       sum_list (map col (filter (\<lambda>r. key r = k) df))) ks)"
    by (rule arg_cong [where f = sum_list], rule map_cong) auto
  also have "\<dots> = sum_list (map (\<lambda>k. if key r = k then col r else 0) ks) +
      sum_list (map (\<lambda>k. sum_list (map col (filter (\<lambda>r. key r = k) df))) ks)"
    by (simp add: sum_list_addf)
  also have "\<dots> = (if key r \<in> set ks then col r else 0) +
      sum_list (map col (filter (\<lambda>r. key r \<in> set ks) df))"
    using assms Cons.IH by (simp add: sum_list_indicator)
  finally show ?case by simp
qed

lemma groupby_sum_total:
  fixes col :: "'r \<Rightarrow> 'v::comm_monoid_add"
  shows "sum_list (map snd (groupby_sum key col df)) = sum_list (map col df)"
proof -
  have "sum_list (map snd (groupby_sum key col df)) =
    sum_list (map (\<lambda>k. sum_list (map col (filter (\<lambda>r. key r = k) df)))
      (sort (remdups (map key df))))"
    by (simp add: groupby_sum_def comp_def)
  also have "\<dots> = sum_list (map col (filter (\<lambda>r. key r \<in> set (sort (remdups (map key df)))) df))"
    by (rule sum_list_groups) simp
  also have "filter (\<lambda>r. key r \<in> set (sort (remdups (map key df)))) df = df"
    by (simp add: filter_id_conv)
  finally show ?thesis .
qed

subsection \<open>The preprocessor\<close>

lemma tod_range_simps:
  "tod_range ''Morning'' = (5, 11)"
  "tod_range ''Afternoon'' = (12, 16)"
  "tod_range ''Evening'' = (17, 20)"
  by (simp_all add: tod_range_def time_of_day_def)

text \<open>
  C5. The time-of-day categorization is total on the hours 0 to 23: every hour gets
  exactly one of the four categories, Morning for 5 to 11, Afternoon for 12 to 16,
  Evening for 17 to 20, and Night for every other hour (21 to 23 and 0 to 4).
\<close>

theorem categorize_time_of_day_ranges:
  assumes "0 \<le> h" and "h \<le> 23"
  shows "categorize_time_of_day h \<in> {''Morning'', ''Afternoon'', ''Evening'', ''Night''}
    \<and> (categorize_time_of_day h = ''Morning'' \<longleftrightarrow> 5 \<le> h \<and> h \<le> 11)
    \<and> (categorize_time_of_day h = ''Afternoon'' \<longleftrightarrow> 12 \<le> h \<and> h \<le> 16)
    \<and> (categorize_time_of_day h = ''Evening'' \<longleftrightarrow> 17 \<le> h \<and> h \<le> 20)
    \<and> (categorize_time_of_day h = ''Night'' \<longleftrightarrow> h \<le> 4 \<or> 21 \<le> h)"
  using assms by (auto simp add: categorize_time_of_day_def tod_range_simps)

theorem categorize_time_of_day_ranges_witness:
  "(0::int) \<le> 22 \<and> (22::int) \<le> 23 \<and> categorize_time_of_day 22 = ''Night''
    \<and> categorize_time_of_day 22 \<noteq> ''Morning''"
  using categorize_time_of_day_ranges [of 22] by simp

subsection \<open>The KPI calculation\<close>

lemma monthly_totals_length: "length (monthly_totals df) = card (Year_Month ` set df)"
  by (simp add: monthly_totals_def)

lemma monthly_totals_nth:
  "i < card (Year_Month ` set df) \<Longrightarrow>
   snd (groupby_sum Year_Month Total_Sales df ! i) = monthly_totals df ! i"
  by (simp add: groupby_sum_nth monthly_totals_def)

lemma mom_growth_groupby:
  "mom_growth (groupby_sum Year_Month Total_Sales df) =
     Inr (let ms = monthly_totals df; n = length ms
          in if card (Year_Month ` set df) < 2 then Fin 0
             else fmul (fdiv (Fin (ms ! (n - 1) - ms ! (n - 2))) (Fin (ms ! (n - 2))))
                    (Fin 100))"
proof (cases "card (Year_Month ` set df) < 2")
  case True
  then show ?thesis
    by (simp add: mom_growth_def groupby_sum_length Let_def)
next
  case False
  let ?g = "groupby_sum Year_Month Total_Sales df"
  let ?n = "card (Year_Month ` set df)"
  have len: "length ?g = ?n" by (rule groupby_sum_length)
  have n2: "2 \<le> ?n" using False by simp
  have a: "iloc ?g (- 1) = Inr (?g ! (?n - 1))"
    using iloc_neg [of 1 ?g] n2 len by simp
  have b: "iloc ?g (- 2) = Inr (?g ! (?n - 2))"
    using iloc_neg [of 2 ?g] n2 len by simp
  have c: "snd (?g ! (?n - 1)) = monthly_totals df ! (?n - 1)"
    using n2 by (intro monthly_totals_nth) simp
  have d: "snd (?g ! (?n - 2)) = monthly_totals df ! (?n - 2)"
    using n2 by (intro monthly_totals_nth) simp
  have "mom_growth ?g =
      Inr (fmul (fdiv (Fin (snd (?g ! (?n - 1)) - snd (?g ! (?n - 2))))
                   (Fin (snd (?g ! (?n - 2))))) (Fin 100))"
    unfolding mom_growth_def a b using n2 len by simp
  then show ?thesis
    unfolding c d using False by (simp only: Let_def monthly_totals_length if_False)
qed

lemma yoy_growth_groupby:
  "yoy_growth (groupby_sum Year_Month Total_Sales df) =
     Inr (let ms = monthly_totals df; n = length ms
          in if card (Year_Month ` set df) < 13 then Fin 0
             else fmul (fdiv (Fin (ms ! (n - 1) - ms ! (n - 13))) (Fin (ms ! (n - 13))))
                    (Fin 100))"
proof (cases "card (Year_Month ` set df) < 13")
  case True
  then show ?thesis
    by (simp add: yoy_growth_def groupby_sum_length Let_def)
next
  case False
  let ?g = "groupby_sum Year_Month Total_Sales df"
  let ?n = "card (Year_Month ` set df)"
  have len: "length ?g = ?n" by (rule groupby_sum_length)
  have n13: "13 \<le> ?n" using False by simp
  have a: "iloc ?g (- 1) = Inr (?g ! (?n - 1))"
    using iloc_neg [of 1 ?g] n13 len by simp
  have b: "iloc ?g (- 13) = Inr (?g ! (?n - 13))"
    using iloc_neg [of 13 ?g] n13 len by simp
  have c: "snd (?g ! (?n - 1)) = monthly_totals df ! (?n - 1)"
    using n13 by (intro monthly_totals_nth) simp
  have d: "snd (?g ! (?n - 13)) = monthly_totals df ! (?n - 13)"
    using n13 by (intro monthly_totals_nth) simp
  have "yoy_growth ?g =
      Inr (fmul (fdiv (Fin (snd (?g ! (?n - 1)) - snd (?g ! (?n - 13))))
                   (Fin (snd (?g ! (?n - 13))))) (Fin 100))"
    unfolding yoy_growth_def a b using n13 len by simp
  then show ?thesis
    unfolding c d using False by (simp only: Let_def monthly_totals_length if_False)
qed

lemma calculate_advanced_metrics_returns:
  "calculate_advanced_metrics df =
     Inr \<lparr> metrics_Total_Sales = sum_list (map Total_Sales df),
           metrics_Total_Quantity = sum_list (map Quantity_Sold df),
           metrics_Total_Profit = sum_list (map Profit df),
           metrics_Avg_Order_Size =
             fdiv (Fin (sum_list (map Total_Sales df)))
               (Fin (real_of_int (sum_list (map Quantity_Sold df)))),
           metrics_Return_Rate = fmul (mean_bool (map Return_Flag df)) (Fin 100),
           metrics_MoM_Growth =
             (let ms = monthly_totals df; n = length ms
              in if card (Year_Month ` set df) < 2 then Fin 0
                 else fmul (fdiv (Fin (ms ! (n - 1) - ms ! (n - 2))) (Fin (ms ! (n - 2))))
                        (Fin 100)),
           metrics_YoY_Growth =
             (let ms = monthly_totals df; n = length ms
              in if card (Year_Month ` set df) < 13 then Fin 0
                 else fmul (fdiv (Fin (ms ! (n - 1) - ms ! (n - 13))) (Fin (ms ! (n - 13))))
                        (Fin 100)) \<rparr>"
  unfolding calculate_advanced_metrics_def Let_def mom_growth_groupby yoy_growth_groupby
  by (simp add: Let_def)

lemma preprocess_row_sel:
  "Year_Month (preprocess_row r) = (year (Order_Date r), month (Order_Date r))"
  "Month_Year (preprocess_row r) = (year (Order_Date r), month (Order_Date r))"
  "Total_Sales (preprocess_row r) = Total_Sales r"
  "Profit (preprocess_row r) = Profit r"
  "Quantity_Sold (preprocess_row r) = Quantity_Sold r"
  "Return_Flag (preprocess_row r) = Return_Flag r"
  "Region_ID (preprocess_row r) = Region_ID r"
  "Product_ID (preprocess_row r) = Product_ID r"
  "Year (preprocess_row r) = Year r"
  "Time_of_Day (preprocess_row r) = categorize_time_of_day (Hour r)"
  "Profit_Margin (preprocess_row r) =
     fmul (fdiv (Fin (Profit r)) (Fin (Total_Sales r))) (Fin 100)"
  by (simp_all add: preprocess_row_def row.defs erow.defs)

lemma sample_row_sel:
  "Order_Date (sample_row ym h p g q s pr rt) = \<lparr> year = fst ym, month = snd ym, day = 1 \<rparr>"
  "Hour (sample_row ym h p g q s pr rt) = h"
  "Product_ID (sample_row ym h p g q s pr rt) = p"
  "Region_ID (sample_row ym h p g q s pr rt) = g"
  "Quantity_Sold (sample_row ym h p g q s pr rt) = q"
  "Total_Sales (sample_row ym h p g q s pr rt) = s"
  "Profit (sample_row ym h p g q s pr rt) = pr"
  "Return_Flag (sample_row ym h p g q s pr rt) = rt"
  "Year (sample_row ym h p g q s pr rt) = int (fst ym)"
  by (simp_all add: sample_row_def)

lemmas eval_view =
  load_and_preprocess_data_def preprocess_row_sel sample_row_sel groupby_sum_def
  calculate_advanced_metrics_def mom_growth_def yoy_growth_def iloc_def mean_bool_def
  filter_view_def truthy_list_def truthy_int_def

text \<open>
  C4. The month-over-month growth is 0 when the view has fewer than two distinct
  year-month keys; otherwise it is (last - secondToLast) / secondToLast * 100 over the
  monthly totals in ascending key order, computed in the arithmetic of the program. A
  view with the monthly sums 1000 for 2023-01 and 1200 for 2023-02 has the growth 20.
\<close>

theorem mom_growth_formula:
  "(\<exists>m. calculate_advanced_metrics df = Inr m \<and>
      metrics_MoM_Growth m =
        (let ms = monthly_totals df; n = length ms
         in if card (Year_Month ` set df) < 2 then Fin 0
            else fmul (fdiv (Fin (ms ! (n - 1) - ms ! (n - 2))) (Fin (ms ! (n - 2))))
                   (Fin 100)))
   \<and> (\<exists>m. calculate_advanced_metrics
          (load_and_preprocess_data
            [sample_row (2023, 1) 9 1 1 2 400 40 False,
             sample_row (2023, 2) 13 2 1 3 1200 90 False,
             sample_row (2023, 1) 22 3 2 1 600 50 True]) = Inr m
        \<and> metrics_MoM_Growth m = Fin 20)"
proof
  show "\<exists>m. calculate_advanced_metrics df = Inr m \<and>
      metrics_MoM_Growth m =
        (let ms = monthly_totals df; n = length ms
         in if card (Year_Month ` set df) < 2 then Fin 0
            else fmul (fdiv (Fin (ms ! (n - 1) - ms ! (n - 2))) (Fin (ms ! (n - 2))))
                   (Fin 100))"
    unfolding calculate_advanced_metrics_returns by simp
next
  show "\<exists>m. calculate_advanced_metrics
          (load_and_preprocess_data
            [sample_row (2023, 1) 9 1 1 2 400 40 False,
             sample_row (2023, 2) 13 2 1 3 1200 90 False,
             sample_row (2023, 1) 22 3 2 1 600 50 True]) = Inr m
        \<and> metrics_MoM_Growth m = Fin 20"
    by (simp add: eval_view)
qed

text \<open>
  C2, as amended. The average order size is total sales divided by total quantity when
  the total quantity is not 0 (so also when it is greater than 0). When the total
  quantity is 0, and so for the empty view, it is not 0 but the result of the float
  division by zero: NaN for total sales 0, plus infinity for positive and minus infinity
  for negative total sales. No exception is raised.
\<close>

theorem avg_order_size_division:
  "\<exists>m. calculate_advanced_metrics df = Inr m \<and>
      metrics_Avg_Order_Size m =
        (let s = sum_list (map Total_Sales df); q = sum_list (map Quantity_Sold df)
         in if q = 0 then (if s = 0 then NaN else if 0 < s then PInf else NInf)
            else Fin (s / real_of_int q))"
  unfolding calculate_advanced_metrics_returns by (simp add: Let_def)

text \<open>
  The claim C2 as stated fails: the empty view, and a view of one row with quantity 0,
  have an average order size that is not 0.
\<close>

theorem avg_order_size_counterexample:
  "(\<exists>m. calculate_advanced_metrics [] = Inr m \<and> metrics_Avg_Order_Size m \<noteq> Fin 0)
   \<and> (\<exists>m. calculate_advanced_metrics
          (load_and_preprocess_data [sample_row (2023, 1) 9 1 1 0 50 5 False]) = Inr m
        \<and> sum_list (map Quantity_Sold
             (load_and_preprocess_data [sample_row (2023, 1) 9 1 1 0 50 5 False])) = 0
        \<and> metrics_Avg_Order_Size m \<noteq> Fin 0)"
  by (simp add: eval_view)

text \<open>
  C8. The year-over-year growth is 0 when the view has fewer than 13 distinct year-month
  keys; otherwise it is (m[-1] - m[-13]) / m[-13] * 100 over the monthly totals in
  ascending key order, by position. The view of the second part has the twelve months of
  2022 and February 2023: the month thirteen positions back is January 2022, not
  February 2022.
\<close>

theorem yoy_growth_positional:
  "(\<exists>m. calculate_advanced_metrics df = Inr m \<and>
      metrics_YoY_Growth m =
        (let ms = monthly_totals df; n = length ms
         in if card (Year_Month ` set df) < 13 then Fin 0
            else fmul (fdiv (Fin (ms ! (n - 1) - ms ! (n - 13))) (Fin (ms ! (n - 13))))
                   (Fin 100)))
   \<and> (\<exists>m. calculate_advanced_metrics
          (load_and_preprocess_data
            [sample_row (2022, 1) 9 1 1 1 100 10 False,
             sample_row (2022, 2) 9 1 1 1 200 10 False,
             sample_row (2022, 3) 9 1 1 1 300 10 False,
             sample_row (2022, 4) 9 1 1 1 400 10 False,
             sample_row (2022, 5) 9 1 1 1 500 10 False,
             sample_row (2022, 6) 9 1 1 1 600 10 False,
             sample_row (2022, 7) 9 1 1 1 700 10 False,
             sample_row (2022, 8) 9 1 1 1 800 10 False,
             sample_row (2022, 9) 9 1 1 1 900 10 False,
             sample_row (2022, 10) 9 1 1 1 1000 10 False,
             sample_row (2022, 11) 9 1 1 1 1100 10 False,
             sample_row (2022, 12) 9 1 1 1 1200 10 False,
             sample_row (2023, 2) 9 1 1 1 150 10 False]) = Inr m
        \<and> metrics_YoY_Growth m = Fin 50)"
proof
  show "\<exists>m. calculate_advanced_metrics df = Inr m \<and>
      metrics_YoY_Growth m =
        (let ms = monthly_totals df; n = length ms
         in if card (Year_Month ` set df) < 13 then Fin 0
            else fmul (fdiv (Fin (ms ! (n - 1) - ms ! (n - 13))) (Fin (ms ! (n - 13))))
                   (Fin 100))"
    unfolding calculate_advanced_metrics_returns by simp
next
  show "\<exists>m. calculate_advanced_metrics
          (load_and_preprocess_data
            [sample_row (2022, 1) 9 1 1 1 100 10 False,
             sample_row (2022, 2) 9 1 1 1 200 10 False,
             sample_row (2022, 3) 9 1 1 1 300 10 False,
             sample_row (2022, 4) 9 1 1 1 400 10 False,
             sample_row (2022, 5) 9 1 1 1 500 10 False,
             sample_row (2022, 6) 9 1 1 1 600 10 False,
             sample_row (2022, 7) 9 1 1 1 700 10 False,
             sample_row (2022, 8) 9 1 1 1 800 10 False,
             sample_row (2022, 9) 9 1 1 1 900 10 False,
             sample_row (2022, 10) 9 1 1 1 1000 10 False,
             sample_row (2022, 11) 9 1 1 1 1100 10 False,
             sample_row (2022, 12) 9 1 1 1 1200 10 False,
             sample_row (2023, 2) 9 1 1 1 150 10 False]) = Inr m
        \<and> metrics_YoY_Growth m = Fin 50"
    by (simp add: eval_view)
qed

lemma filter_view_Nil: "filter_view rs ts y [] = []"
  by (simp add: filter_view_def Let_def)

text \<open>
  C1, as amended. When the filter leaves no row, the KPI calculation raises nothing and
  returns total sales 0, total quantity 0, total profit 0, month-over-month and
  year-over-year growth 0, and NaN (not 0) for the average order size and for the
  return rate.
\<close>

theorem empty_view_metrics:
  assumes "filter_view selected_regions selected_times selected_year df = []"
  shows "calculate_advanced_metrics
           (filter_view selected_regions selected_times selected_year df) =
         Inr \<lparr> metrics_Total_Sales = 0, metrics_Total_Quantity = 0,
               metrics_Total_Profit = 0, metrics_Avg_Order_Size = NaN,
               metrics_Return_Rate = NaN, metrics_MoM_Growth = Fin 0,
               metrics_YoY_Growth = Fin 0 \<rparr>"
  unfolding assms calculate_advanced_metrics_returns
  by (simp add: mean_bool_def)

theorem empty_view_metrics_witness:
  "filter_view (Some [2]) None None
     (load_and_preprocess_data [sample_row (2023, 1) 9 1 1 2 100 10 False]) = []
   \<and> calculate_advanced_metrics
       (filter_view (Some [2]) None None
          (load_and_preprocess_data [sample_row (2023, 1) 9 1 1 2 100 10 False])) =
     Inr \<lparr> metrics_Total_Sales = 0, metrics_Total_Quantity = 0,
           metrics_Total_Profit = 0, metrics_Avg_Order_Size = NaN,
           metrics_Return_Rate = NaN, metrics_MoM_Growth = Fin 0,
           metrics_YoY_Growth = Fin 0 \<rparr>"
proof -
  have h: "filter_view (Some [2]) None None
     (load_and_preprocess_data [sample_row (2023, 1) 9 1 1 2 100 10 False]) = []"
    by (simp add: eval_view)
  show ?thesis
    using h empty_view_metrics [OF h] by simp
qed

text \<open>
  The claim C1 as stated fails: a region set matching no row gives an empty view, and the
  snapshot of that view is not the snapshot with 0 in every field.
\<close>

theorem empty_view_metrics_counterexample:
  "filter_view (Some [2]) None None
     (load_and_preprocess_data [sample_row (2023, 1) 9 1 1 2 100 10 False]) = []
   \<and> calculate_advanced_metrics
       (filter_view (Some [2]) None None
          (load_and_preprocess_data [sample_row (2023, 1) 9 1 1 2 100 10 False])) \<noteq>
     Inr \<lparr> metrics_Total_Sales = 0, metrics_Total_Quantity = 0,
           metrics_Total_Profit = 0, metrics_Avg_Order_Size = Fin 0,
           metrics_Return_Rate = Fin 0, metrics_MoM_Growth = Fin 0,
           metrics_YoY_Growth = Fin 0 \<rparr>"
  by (simp add: eval_view)

text \<open>
  C3, as amended. With at least two distinct months and a second-to-last monthly total
  of 0, the month-over-month growth is not 0 but the result of the float division by
  zero: NaN when the last month's total is 0 as well, plus infinity when it is positive,
  minus infinity when it is negative.
\<close>

theorem mom_growth_zero_previous:
  assumes "2 \<le> card (Year_Month ` set df)"
    and "monthly_totals df ! (length (monthly_totals df) - 2) = 0"
  shows "\<exists>m. calculate_advanced_metrics df = Inr m \<and>
      metrics_MoM_Growth m =
        (let current = monthly_totals df ! (length (monthly_totals df) - 1)
         in if current = 0 then NaN else if 0 < current then PInf else NInf)"
  unfolding calculate_advanced_metrics_returns using assms by (simp add: Let_def)

lemma monthly_totals_groupby:
  "monthly_totals df = map snd (groupby_sum Year_Month Total_Sales df)"
  by (simp add: monthly_totals_def groupby_sum_def comp_def
      sorted_list_of_set_sort_remdups [symmetric])

lemma card_image_remdups: "card (f ` set xs) = length (remdups (map f xs))"
  by (simp add: length_remdups_card_conv)

theorem mom_growth_zero_previous_witness:
  "2 \<le> card (Year_Month ` set (load_and_preprocess_data
       [sample_row (2023, 1) 9 1 1 1 0 0 False, sample_row (2023, 2) 9 1 1 1 100 10 False]))
   \<and> monthly_totals (load_and_preprocess_data
       [sample_row (2023, 1) 9 1 1 1 0 0 False, sample_row (2023, 2) 9 1 1 1 100 10 False]) =
       [0, 100]
   \<and> (\<exists>m. calculate_advanced_metrics (load_and_preprocess_data
       [sample_row (2023, 1) 9 1 1 1 0 0 False, sample_row (2023, 2) 9 1 1 1 100 10 False]) =
         Inr m \<and> metrics_MoM_Growth m = PInf)"
proof -
  let ?v = "load_and_preprocess_data
       [sample_row (2023, 1) 9 1 1 1 0 0 False, sample_row (2023, 2) 9 1 1 1 100 10 False]"
  have h1: "2 \<le> card (Year_Month ` set ?v)"
    by (simp add: card_image_remdups eval_view)
  have ms: "monthly_totals ?v = [0, 100]"
    by (simp add: monthly_totals_groupby eval_view)
  have h2: "monthly_totals ?v ! (length (monthly_totals ?v) - 2) = 0"
    unfolding ms by simp
  have "\<exists>m. calculate_advanced_metrics ?v = Inr m \<and> metrics_MoM_Growth m = PInf"
    using mom_growth_zero_previous [OF h1 h2] unfolding ms by (simp add: Let_def)
  with h1 ms show ?thesis by blast
qed

text \<open>
  The claim C3 as stated fails: with the monthly totals 0 and 100 the growth is not 0.
\<close>

theorem mom_growth_zero_previous_counterexample:
  "monthly_totals (load_and_preprocess_data
       [sample_row (2023, 1) 9 1 1 1 0 0 False, sample_row (2023, 2) 9 1 1 1 100 10 False]) =
       [0, 100]
   \<and> (\<exists>m. calculate_advanced_metrics (load_and_preprocess_data
       [sample_row (2023, 1) 9 1 1 1 0 0 False, sample_row (2023, 2) 9 1 1 1 100 10 False]) =
         Inr m \<and> metrics_MoM_Growth m \<noteq> Fin 0)"
  by (simp add: monthly_totals_groupby eval_view)

subsection \<open>The filter\<close>

text \<open>
  What the filter keeps, for every selection: the rows, in their order, that pass each
  dimension whose selection is true in Python's truth test.
\<close>

lemma filter_view_predicate:
  "filter_view selected_regions selected_times selected_year df =
     filter (\<lambda>r.
        (case selected_regions of None \<Rightarrow> True
         | Some regions \<Rightarrow> regions = [] \<or> Region_ID r \<in> set regions)
      \<and> (case selected_times of None \<Rightarrow> True
         | Some tods \<Rightarrow> tods = [] \<or> Time_of_Day r \<in> set tods)
      \<and> (case selected_year of None \<Rightarrow> True
         | Some y \<Rightarrow> y = 0 \<or> Year r = y)) df"
  by (cases selected_regions; cases selected_times; cases selected_year)
     (auto simp add: filter_view_def truthy_list_def truthy_int_def Let_def
        intro: filter_cong)

text \<open>
  For every selected year other than 0 the filter is the predicate of the
  specification: region in the set or no regions selected, time of day in the set or no
  times selected, year equal to the selected year or no year selected.
\<close>

lemma filter_view_unless_year_zero:
  assumes "selected_year \<noteq> Some 0"
  shows "filter_view selected_regions selected_times selected_year df =
     filter (\<lambda>r.
        (case selected_regions of None \<Rightarrow> True
         | Some regions \<Rightarrow> regions = [] \<or> Region_ID r \<in> set regions)
      \<and> (case selected_times of None \<Rightarrow> True
         | Some tods \<Rightarrow> tods = [] \<or> Time_of_Day r \<in> set tods)
      \<and> (case selected_year of None \<Rightarrow> True | Some y \<Rightarrow> Year r = y)) df"
proof -
  have "(case selected_year of None \<Rightarrow> True | Some y \<Rightarrow> y = 0 \<or> Year r = y) =
      (case selected_year of None \<Rightarrow> True | Some y \<Rightarrow> Year r = y)" for r :: erow
    using assms by (cases selected_year) auto
  then show ?thesis
    unfolding filter_view_predicate by simp
qed

text \<open>
  C7. The filter is meant to keep the rows whose year equals the selected year, and it
  does for every year but 0: \<open>if selected_year:\<close> is false for the number 0, so the
  year 0, once selected, restricts nothing. In the data below one row has the year 0,
  so the year dropdown offers 0; with 0 selected the view still holds the row of 2023,
  while the rows whose year is 0 are the first row alone.
\<close>

theorem filter_view_year_zero_not_applied:
  "map Year (load_and_preprocess_data
      [(sample_row (2023, 1) 9 1 1 2 100 10 False)\<lparr>Year := 0\<rparr>,
       sample_row (2023, 2) 13 2 1 3 200 20 False]) = [0, 2023]
   \<and> map Year (filter_view None None (Some 0)
       (load_and_preprocess_data
         [(sample_row (2023, 1) 9 1 1 2 100 10 False)\<lparr>Year := 0\<rparr>,
          sample_row (2023, 2) 13 2 1 3 200 20 False])) = [0, 2023]
   \<and> map Year (filter (\<lambda>r. Year r = 0)
       (load_and_preprocess_data
         [(sample_row (2023, 1) 9 1 1 2 100 10 False)\<lparr>Year := 0\<rparr>,
          sample_row (2023, 2) 13 2 1 3 200 20 False])) = [0]"
  by (simp add: eval_view)

subsection \<open>The product share\<close>

lemma sum_list_take_drop:
  fixes f :: "'a \<Rightarrow> real"
  shows "sum_list (map f xs) - sum_list (map f (take n xs)) = sum_list (map f (drop n xs))"
proof -
  have "sum_list (map f (take n xs @ drop n xs)) =
      sum_list (map f (take n xs)) + sum_list (map f (drop n xs))"
    by (simp only: map_append sum_list_append)
  then show ?thesis by simp
qed

lemma sum_list_sort_values_desc:
  "sum_list (map snd (sort_values_desc frame)) = sum_list (map snd frame)"
proof -
  have "mset (map snd (sort_values_desc frame)) = mset (map snd frame)"
    by (simp add: sort_values_desc_def)
  then show ?thesis
    by (metis sum_mset_sum_list)
qed

text \<open>
  In any float arithmetic: the chart data are at most five product rows, the head of
  the frame sorted by descending sales, and the row Others, whose value is the float
  difference of the float sum of all per-product totals and the float sum of the top
  rows. With at most five products the top rows are all the per-product totals, in
  another order: Others is then the difference of two sums of the same numbers, 0 up to
  the rounding of the two sums.
\<close>

lemma product_share_any_arith:
  "\<exists>tops. plot_product_sales_share fa df =
        map (\<lambda>kv. (Product (fst kv), snd kv)) tops @
        [(Others,
          fl_sub fa (fl_sum fa (map snd (groupby_sum Product_ID Total_Sales df)))
            (fl_sum fa (map snd tops)))]
      \<and> length tops \<le> 5
      \<and> mset tops \<subseteq># mset (groupby_sum Product_ID Total_Sales df)
      \<and> (card (Product_ID ` set df) \<le> 5 \<longrightarrow>
           mset tops = mset (groupby_sum Product_ID Total_Sales df))"
proof -
  let ?ps = "groupby_sum Product_ID Total_Sales df"
  let ?tops = "take 5 (sort_values_desc ?ps)"
  have shape: "plot_product_sales_share fa df =
        map (\<lambda>kv. (Product (fst kv), snd kv)) ?tops @
        [(Others, fl_sub fa (fl_sum fa (map snd ?ps)) (fl_sum fa (map snd ?tops)))]"
    by (simp add: plot_product_sales_share_def Let_def)
  have len: "length ?tops \<le> 5" by simp
  have "mset ?tops \<subseteq># mset (take 5 (sort_values_desc ?ps) @ drop 5 (sort_values_desc ?ps))"
    by (simp only: mset_append mset_subset_eq_add_left)
  then have sub: "mset ?tops \<subseteq># mset ?ps"
    by (simp add: sort_values_desc_def)
  have all: "card (Product_ID ` set df) \<le> 5 \<longrightarrow> mset ?tops = mset ?ps"
  proof
    assume "card (Product_ID ` set df) \<le> 5"
    then have "length (sort_values_desc ?ps) \<le> 5"
      by (simp add: sort_values_desc_def groupby_sum_length)
    then have "?tops = sort_values_desc ?ps" by simp
    then show "mset ?tops = mset ?ps"
      by (simp add: sort_values_desc_def)
  qed
  from shape len sub all show ?thesis by blast
qed

lemma others_bucket_exact:
  "snd (last (plot_product_sales_share exact_arith df)) =
     sum_list (map snd (drop 5 (sort_values_desc (groupby_sum Product_ID Total_Sales df))))"
proof -
  let ?ps = "groupby_sum Product_ID Total_Sales df"
  have "snd (last (plot_product_sales_share exact_arith df)) =
      sum_list (map snd ?ps) - sum_list (map snd (take 5 (sort_values_desc ?ps)))"
    by (simp add: plot_product_sales_share_def exact_arith_def Let_def)
  also have "sum_list (map snd ?ps) = sum_list (map snd (sort_values_desc ?ps))"
    by (simp only: sum_list_sort_values_desc)
  finally show ?thesis
    by (simp only: sum_list_take_drop)
qed

lemma product_share_shape_exact:
  "plot_product_sales_share exact_arith df =
     map (\<lambda>kv. (Product (fst kv), snd kv))
       (take 5 (sort_values_desc (groupby_sum Product_ID Total_Sales df)))
     @ [(Others, snd (last (plot_product_sales_share exact_arith df)))]"
  by (simp add: plot_product_sales_share_def Let_def)

lemma product_share_total_exact:
  "sum_list (map snd (plot_product_sales_share exact_arith df)) =
     sum_list (map Total_Sales df)"
proof -
  let ?ps = "groupby_sum Product_ID Total_Sales df"
  have "sum_list (map snd (plot_product_sales_share exact_arith df)) =
      sum_list (map snd (take 5 (sort_values_desc ?ps))) +
      (sum_list (map snd ?ps) - sum_list (map snd (take 5 (sort_values_desc ?ps))))"
    by (simp add: plot_product_sales_share_def exact_arith_def Let_def comp_def)
  also have "\<dots> = sum_list (map snd ?ps)" by simp
  finally show ?thesis by (simp only: groupby_sum_total)
qed

lemma groupby_sum_set:
  "set (groupby_sum key col df) =
     (\<lambda>k. (k, sum_list (map col (filter (\<lambda>r. key r = k) df)))) ` key ` set df"
  by (auto simp add: groupby_sum_def)

text \<open>
  C6, as amended. Rounding aside, that is with the two sums and their difference taken
  in exact arithmetic: the chart data are at most five products followed by the row
  Others; the product rows and Others sum to the total sales of the view; Others is 0
  when the view has at most five (so also when it has fewer than five) distinct
  products; and Others is at least 0 when no product has negative summed sales. Nothing
  in the code keeps Others from being negative: a product with negative summed sales
  outside the top five makes it so, and in float arithmetic the rounding of the two
  sums, added in different orders, can as well.
\<close>

theorem product_share_others:
  "(\<exists>tops v. plot_product_sales_share exact_arith df =
        map (\<lambda>kv. (Product (fst kv), snd kv)) tops @ [(Others, v)]
      \<and> length tops \<le> 5
      \<and> sum_list (map snd tops) + v = sum_list (map Total_Sales df)
      \<and> (card (Product_ID ` set df) \<le> 5 \<longrightarrow> v = 0)
      \<and> ((\<forall>p \<in> Product_ID ` set df.
             0 \<le> sum_list (map Total_Sales (filter (\<lambda>r. Product_ID r = p) df)))
           \<longrightarrow> 0 \<le> v))"
proof -
  let ?ps = "groupby_sum Product_ID Total_Sales df"
  let ?tops = "take 5 (sort_values_desc ?ps)"
  let ?v = "snd (last (plot_product_sales_share exact_arith df))"
  have shape: "plot_product_sales_share exact_arith df =
      map (\<lambda>kv. (Product (fst kv), snd kv)) ?tops @ [(Others, ?v)]"
    by (rule product_share_shape_exact)
  have len: "length ?tops \<le> 5" by simp
  have total: "sum_list (map snd ?tops) + ?v = sum_list (map Total_Sales df)"
  proof -
    have "sum_list (map snd (plot_product_sales_share exact_arith df)) =
        sum_list (map snd ?tops) + ?v"
      by (subst shape) (simp add: comp_def)
    then show ?thesis by (simp only: product_share_total_exact)
  qed
  have few: "card (Product_ID ` set df) \<le> 5 \<longrightarrow> ?v = 0"
  proof
    assume "card (Product_ID ` set df) \<le> 5"
    then have "length (sort_values_desc ?ps) \<le> 5"
      by (simp add: sort_values_desc_def groupby_sum_length)
    then have "drop 5 (sort_values_desc ?ps) = []" by simp
    then show "?v = 0" by (simp add: others_bucket_exact)
  qed
  have nonneg: "(\<forall>p \<in> Product_ID ` set df.
             0 \<le> sum_list (map Total_Sales (filter (\<lambda>r. Product_ID r = p) df)))
           \<longrightarrow> 0 \<le> ?v"
  proof
    assume a: "\<forall>p \<in> Product_ID ` set df.
             0 \<le> sum_list (map Total_Sales (filter (\<lambda>r. Product_ID r = p) df))"
    have "\<And>x. x \<in> set (map snd (drop 5 (sort_values_desc ?ps))) \<Longrightarrow> 0 \<le> x"
    proof -
      fix x assume "x \<in> set (map snd (drop 5 (sort_values_desc ?ps)))"
      then obtain kv where kv: "kv \<in> set (drop 5 (sort_values_desc ?ps))" and x: "x = snd kv"
        by auto
      from kv have "kv \<in> set (sort_values_desc ?ps)" by (rule in_set_dropD)
      then have "kv \<in> set ?ps" by (simp add: sort_values_desc_def)
      then show "0 \<le> x" using a x by (auto simp add: groupby_sum_set)
    qed
    then have "0 \<le> sum_list (map snd (drop 5 (sort_values_desc ?ps)))"
      by (rule sum_list_nonneg)
    then show "0 \<le> ?v" by (simp only: others_bucket_exact)
  qed
  from shape len total few nonneg show ?thesis by blast
qed

lemmas eval_share = plot_product_sales_share_def sort_values_desc_def exact_arith_def

text \<open>
  The claim C6 as stated fails: with six products, the sixth with summed sales of -15
  (returns), the row Others is -15. The sales here are small whole numbers, which float
  addition adds without rounding in any order.
\<close>

theorem product_share_others_counterexample:
  "plot_product_sales_share exact_arith (load_and_preprocess_data
     [sample_row (2023, 1) 9 1 1 1 50 5 False, sample_row (2023, 1) 9 2 1 1 40 4 False,
      sample_row (2023, 1) 9 3 1 1 30 3 False, sample_row (2023, 1) 9 4 1 1 20 2 False,
      sample_row (2023, 1) 9 5 1 1 10 1 False, sample_row (2023, 1) 9 6 1 1 (- 15) (- 2) True]) =
   [(Product 1, 50), (Product 2, 40), (Product 3, 30), (Product 4, 20), (Product 5, 10),
    (Others, - 15)]
   \<and> snd (last (plot_product_sales_share exact_arith (load_and_preprocess_data
     [sample_row (2023, 1) 9 1 1 1 50 5 False, sample_row (2023, 1) 9 2 1 1 40 4 False,
      sample_row (2023, 1) 9 3 1 1 30 3 False, sample_row (2023, 1) 9 4 1 1 20 2 False,
      sample_row (2023, 1) 9 5 1 1 10 1 False, sample_row (2023, 1) 9 6 1 1 (- 15) (- 2) True])))
     < 0"
  by (simp add: eval_view eval_share)

theorem product_share_others_witness:
  "card (Product_ID ` set (load_and_preprocess_data
     [sample_row (2023, 1) 9 1 1 1 50 5 False, sample_row (2023, 1) 9 2 1 1 40 4 False,
      sample_row (2023, 2) 9 1 1 1 30 3 False])) \<le> 5
   \<and> (\<exists>tops. plot_product_sales_share exact_arith (load_and_preprocess_data
     [sample_row (2023, 1) 9 1 1 1 50 5 False, sample_row (2023, 1) 9 2 1 1 40 4 False,
      sample_row (2023, 2) 9 1 1 1 30 3 False]) =
        map (\<lambda>kv. (Product (fst kv), snd kv)) tops @ [(Others, 0)]
      \<and> sum_list (map snd tops) = 120)"
proof -
  let ?v = "load_and_preprocess_data
     [sample_row (2023, 1) 9 1 1 1 50 5 False, sample_row (2023, 1) 9 2 1 1 40 4 False,
      sample_row (2023, 2) 9 1 1 1 30 3 False]"
  have h1: "card (Product_ID ` set ?v) \<le> 5"
    unfolding card_image_remdups by (simp add: eval_view)
  have h2: "\<forall>p \<in> Product_ID ` set ?v.
      0 \<le> sum_list (map Total_Sales (filter (\<lambda>r. Product_ID r = p) ?v))"
    by (simp add: eval_view)
  have tot: "sum_list (map Total_Sales ?v) = 120"
    by (simp add: eval_view)
  from product_share_others [of ?v] obtain tops v where
    shape: "plot_product_sales_share exact_arith ?v =
        map (\<lambda>kv. (Product (fst kv), snd kv)) tops @ [(Others, v)]"
    and total: "sum_list (map snd tops) + v = sum_list (map Total_Sales ?v)"
    and few: "card (Product_ID ` set ?v) \<le> 5 \<longrightarrow> v = 0"
    and nonneg: "(\<forall>p \<in> Product_ID ` set ?v.
        0 \<le> sum_list (map Total_Sales (filter (\<lambda>r. Product_ID r = p) ?v))) \<longrightarrow> 0 \<le> v"
    by blast
  from few h1 have v0: "v = 0" by blast
  from nonneg h2 have "0 \<le> v" by blast
  from total v0 tot have "sum_list (map snd tops) = 120" by simp
  with shape v0 h1 show ?thesis by blast
qed

subsection \<open>The insight generator\<close>

lemma groupby_sum_eq_Nil: "groupby_sum key col df = [] \<longleftrightarrow> df = []"
proof -
  have "length (groupby_sum key col df) = 0 \<longleftrightarrow> df = []"
    unfolding groupby_sum_length by simp
  then show ?thesis by simp
qed

lemma argmax_less: "vs \<noteq> [] \<Longrightarrow> argmax vs < length vs"
  by (induction vs rule: argmax.induct) (auto simp add: Let_def)

lemma idxmax_groupby:
  "df \<noteq> [] \<Longrightarrow>
   idxmax (map snd (groupby_sum key col df)) = Inr (argmax (map snd (groupby_sum key col df)))"
  by (simp add: idxmax_def groupby_sum_eq_Nil)

lemma values0_peak:
  assumes "i < length frame"
  shows "\<exists>v. values0 (map snd (filter (\<lambda>kv. fst kv = fst (frame ! i)) frame)) = Inr v"
proof -
  have "frame ! i \<in> set (filter (\<lambda>kv. fst kv = fst (frame ! i)) frame)"
    using assms by simp
  then have "filter (\<lambda>kv. fst kv = fst (frame ! i)) frame \<noteq> []"
    by (auto simp add: filter_empty_conv)
  then show ?thesis
    by (cases "filter (\<lambda>kv. fst kv = fst (frame ! i)) frame") (simp_all add: values0_def)
qed

lemma insights_returns:
  assumes "df \<noteq> []"
  shows "\<exists>x. generate_insights_and_recommendations df = Inr x"
proof -
  let ?tod = "groupby_sum Time_of_Day Total_Sales df"
  have "map snd ?tod \<noteq> []" using assms by (simp add: groupby_sum_eq_Nil)
  then have "argmax (map snd ?tod) < length (map snd ?tod)" by (rule argmax_less)
  then have "argmax (map snd ?tod) < length ?tod" by simp
  from values0_peak [OF this] obtain v where
    v: "values0 (map snd (filter (\<lambda>kv. fst kv = fst (?tod ! argmax (map snd ?tod))) ?tod)) = Inr v"
    by blast
  show ?thesis
    unfolding generate_insights_and_recommendations_def Let_def
    by (simp add: idxmax_groupby [OF assms] v)
qed

text \<open>
  C9, as amended. When the view has zero rows the insight generator neither raises an
  error of its own nor returns a value for "no data": it fails with the ValueError of
  its first \<open>idxmax\<close>, which nothing catches. A view with at least one row never
  fails.
\<close>

theorem insights_raise_on_empty_view_only:
  "generate_insights_and_recommendations df = Inl e \<longleftrightarrow> df = [] \<and> e = ValueError"
proof (cases "df = []")
  case True
  then show ?thesis
    by (auto simp add: generate_insights_and_recommendations_def groupby_sum_Nil idxmax_def)
next
  case False
  from insights_returns [OF False] show ?thesis using False by auto
qed

text \<open>
  The claim C9 as stated fails: on the empty view the first reduction raises, its
  ValueError is the outcome of the whole function, and no value is returned.
\<close>

theorem insights_empty_view_counterexample:
  "idxmax (map snd (groupby_sum Time_of_Day Total_Sales [])) = Inl ValueError
   \<and> generate_insights_and_recommendations [] = Inl ValueError
   \<and> \<not> (\<exists>x. generate_insights_and_recommendations [] = Inr x)"
  by (simp add: generate_insights_and_recommendations_def groupby_sum_Nil idxmax_def)

subsection \<open>The profit margin\<close>

text \<open>
  C10. The preprocessor divides the profit by the sales of the row with no guard: a row
  with sales 0 has a margin that is not finite (NaN for profit 0, an infinity
  otherwise). The margin goes into the monthly mean of the profit-margin trend as it
  is: in the view below, the month of such a row with profit 5 has the mean plus
  infinity.
\<close>

theorem profit_margin_division_by_zero:
  "Profit_Margin (preprocess_row (r\<lparr>Total_Sales := 0\<rparr>)) =
     (if Profit r = 0 then NaN else if 0 < Profit r then PInf else NInf)
   \<and> \<not> is_finite (Profit_Margin (preprocess_row (r\<lparr>Total_Sales := 0\<rparr>)))
   \<and> plot_profit_margin_trend (load_and_preprocess_data
        [sample_row (2023, 1) 9 1 1 1 0 5 False, sample_row (2023, 1) 9 2 1 1 100 20 False,
         sample_row (2023, 2) 9 2 1 1 200 30 False]) =
        [((2023, 1), PInf), ((2023, 2), Fin 15)]"
  by (simp add: preprocess_row_sel eval_view plot_profit_margin_trend_def groupby_mean_def
      nanmean_def)

end
